theory Spec2Isabelle
  imports Main
begin

section \<open>Python values, failures and the argument namespace\<close>

text \<open>
  The program is dynamically typed: a function may return \<^verbatim>\<open>None\<close>, and an attribute of the
  parsed arguments holds \<^verbatim>\<open>None\<close>, a boolean, an integer, a string or the list of text words.
\<close>

datatype pyval =
    PyNone
  | PyBool bool
  | PyInt int
  | PyStr string
  | PyStrs "string list"

text \<open>Python's truth value of an object, as \<^verbatim>\<open>if x:\<close> and \<^verbatim>\<open>not x\<close> read it.\<close>

definition truthy :: "pyval \<Rightarrow> bool" where
  "truthy v =
     (case v of
        PyNone \<Rightarrow> False
      | PyBool b \<Rightarrow> b
      | PyInt n \<Rightarrow> n \<noteq> 0
      | PyStr s \<Rightarrow> s \<noteq> []
      | PyStrs ws \<Rightarrow> ws \<noteq> [])"

text \<open>\<^verbatim>\<open>x == True\<close>: a boolean compares by value and \<^verbatim>\<open>1 == True\<close> holds; no other value equals
  \<^verbatim>\<open>True\<close>.\<close>

definition eq_True :: "pyval \<Rightarrow> bool" where
  "eq_True v = (case v of PyBool b \<Rightarrow> b | PyInt n \<Rightarrow> n = 1 | _ \<Rightarrow> False)"

text \<open>
  How a call can end without a value: \<^verbatim>\<open>exit(code)\<close>, or one of the exceptions the modelled
  functions can raise (none of them is caught anywhere in the program).
\<close>

datatype error =
    Exit int
  | AttributeError
  | TypeError
  | KeyError
  | ValueError

definition and_then :: "error + 'a \<Rightarrow> ('a \<Rightarrow> error + 'b) \<Rightarrow> error + 'b" where
  "and_then m k = (case m of Inl e \<Rightarrow> Inl e | Inr x \<Rightarrow> k x)"

text \<open>
  \<^verbatim>\<open>argparse.Namespace\<close> keeps its attributes in a dictionary: \<^verbatim>\<open>args.x\<close> and
  \<^verbatim>\<open>getattr(args, 'x')\<close> look the name up and raise AttributeError when it is absent, and
  \<^verbatim>\<open>'x' in args\<close> asks whether the name is an attribute at all.
\<close>

type_synonym namespace = "string \<rightharpoonup> pyval"

definition getattr :: "namespace \<Rightarrow> string \<Rightarrow> error + pyval" where
  "getattr args name = (case args name of None \<Rightarrow> Inl AttributeError | Some v \<Rightarrow> Inr v)"

definition contains :: "namespace \<Rightarrow> string \<Rightarrow> bool" where
  "contains args key = (case args key of None \<Rightarrow> False | Some v \<Rightarrow> True)"

section \<open>Module constants\<close>

definition DEFAULT_SIZE :: int where "DEFAULT_SIZE = 45"
definition DEFAULT_POS :: string where "DEFAULT_POS = ''tR''"
definition DEFAULT_FGC :: string where "DEFAULT_FGC = ''fK''"
definition DEFAULT_BGC :: string where "DEFAULT_BGC = ''bW''"

definition POSITION_CODES :: "string list" where
  "POSITION_CODES = [''pT'', ''pTL'', ''pTR'', ''pB'', ''pBL'', ''pBR'', ''pC'', ''pL'', ''pR'']"

definition RETINA_HCELL_PIXELS :: int where "RETINA_HCELL_PIXELS = 14"
definition RETINA_VCELL_PIXELS :: int where "RETINA_VCELL_PIXELS = 28"
definition RETINA_H_OFFSET :: int where "RETINA_H_OFFSET = 20"
definition RETINA_V_OFFSET :: int where "RETINA_V_OFFSET = 14"

definition EXIT_INVALID_FG :: int where "EXIT_INVALID_FG = - 1"
definition EXIT_INVALID_BG :: int where "EXIT_INVALID_BG = - 2"
definition EXIT_DOES_NOT_FIT :: int where "EXIT_DOES_NOT_FIT = - 3"

section \<open>Terminal size in pixels\<close>

text \<open>
  \<^verbatim>\<open>get_terminal_pixel_size(columns, lines, h_pix, v_pix, h_offset=0, v_offset=0)\<close>; Python
  integers are unbounded, hence \<^typ>\<open>int\<close>. The height is computed first, the pair is
  (width, height).
\<close>

definition get_terminal_pixel_size :: "int \<Rightarrow> int \<Rightarrow> int \<Rightarrow> int \<Rightarrow> int \<Rightarrow> int \<Rightarrow> int \<times> int" where
  "get_terminal_pixel_size columns lines h_pix v_pix h_offset v_offset =
     (let height = lines * v_pix + v_offset;
          width = columns * h_pix + h_offset
      in (width, height))"

section \<open>The regular expressions\<close>

text \<open>
  The class \<^verbatim>\<open>[0-9a-fA-F]\<close>, with the value of the digit it matches (the value
  \<^verbatim>\<open>int(_, 16)\<close> gives it).
\<close>

definition hex_digit :: "char \<Rightarrow> int option" where
  "hex_digit c =
     (let n = (of_char c :: nat) in
      if 48 \<le> n \<and> n \<le> 57 then Some (int n - 48)
      else if 97 \<le> n \<and> n \<le> 102 then Some (int n - 87)
      else if 65 \<le> n \<and> n \<le> 70 then Some (int n - 55)
      else None)"

definition is_hex :: "char \<Rightarrow> bool" where
  "is_hex c = (case hex_digit c of None \<Rightarrow> False | Some d \<Rightarrow> True)"

text \<open>\<^verbatim>\<open>[0-9a-fA-F]{6}\<close> at the start of a string: the six characters it matches.\<close>

definition hex_run6 :: "string \<Rightarrow> string option" where
  "hex_run6 s = (if 6 \<le> length s \<and> list_all is_hex (take 6 s) then Some (take 6 s) else None)"

text \<open>
  \<^verbatim>\<open>[#]?([0-9a-fA-F]{6})\<close> at the start of a string, as \<^verbatim>\<open>re.match\<close> tries it: first with
  the \<^verbatim>\<open>#\<close> taken, then without. The result is (group 0, group 1). The pattern of
  \<^verbatim>\<open>validate_html_color\<close> is the same without the group.
\<close>

definition match_color :: "string \<Rightarrow> (string \<times> string) option" where
  "match_color s =
     (case (case s of
              [] \<Rightarrow> None
            | c # r \<Rightarrow> if c = CHR ''#'' then map_option (\<lambda>h. (c # h, h)) (hex_run6 r) else None)
      of Some m \<Rightarrow> Some m
       | None \<Rightarrow> map_option (\<lambda>h. (h, h)) (hex_run6 s))"

text \<open>\<^verbatim>\<open>re.search\<close>: the match at the leftmost position that has one.\<close>

primrec search_color :: "string \<Rightarrow> (string \<times> string) option" where
  "search_color [] = match_color []"
| "search_color (c # r) =
     (case match_color (c # r) of Some m \<Rightarrow> Some m | None \<Rightarrow> search_color r)"

section \<open>Colors\<close>

text \<open>
  \<^verbatim>\<open>int(hexbyte_string, 16)\<close> on a string of hexadecimal digits. \<^verbatim>\<open>html_to_888\<close> passes
  groups of two hexadecimal digits only; the signs, prefixes, blanks and underscores
  that \<^verbatim>\<open>int\<close> also reads are left out, and a string with any other character is a
  ValueError here.
\<close>

definition hex_byte_to_int :: "string \<Rightarrow> error + int" where
  "hex_byte_to_int hexbyte_string =
     (if hexbyte_string \<noteq> [] \<and> list_all is_hex hexbyte_string
      then Inr (foldl (\<lambda>n c. 16 * n + the (hex_digit c)) 0 hexbyte_string)
      else Inl ValueError)"

text \<open>
  \<^verbatim>\<open>html_to_888\<close>: \<^verbatim>\<open>re.match\<close> of three groups of two hexadecimal digits; without a match
  \<^verbatim>\<open>m\<close> is \<^verbatim>\<open>None\<close> and \<^verbatim>\<open>m.group\<close> raises AttributeError.
\<close>

definition html_to_888 :: "string \<Rightarrow> error + (int \<times> int \<times> int)" where
  "html_to_888 html_str =
     (case hex_run6 html_str of
        None \<Rightarrow> Inl AttributeError
      | Some m \<Rightarrow>
          and_then (hex_byte_to_int (take 2 m)) (\<lambda>r.
          and_then (hex_byte_to_int (take 2 (drop 2 m))) (\<lambda>g.
          and_then (hex_byte_to_int (take 2 (drop 4 m))) (\<lambda>b.
          Inr (r, g, b)))))"

text \<open>
  \<^verbatim>\<open>validate_html_color\<close>: \<^verbatim>\<open>re.search\<close> raises TypeError on anything but a string; when the
  pattern occurs nowhere \<^verbatim>\<open>m\<close> is \<^verbatim>\<open>None\<close> and \<^verbatim>\<open>m.group(0)\<close> raises AttributeError.
\<close>

definition validate_html_color :: "pyval \<Rightarrow> error + bool" where
  "validate_html_color color =
     (case color of
        PyStr s \<Rightarrow>
          (case search_color s of
             None \<Rightarrow> Inl AttributeError
           | Some m \<Rightarrow> Inr (fst m = s))
      | _ \<Rightarrow> Inl TypeError)"

text \<open>\<^verbatim>\<open>sanitize_html_color\<close>: group 1 of the match at the start, AttributeError without one.\<close>

definition sanitize_html_color :: "pyval \<Rightarrow> error + string" where
  "sanitize_html_color code =
     (case code of
        PyStr s \<Rightarrow>
          (case match_color s of
             None \<Rightarrow> Inl AttributeError
           | Some m \<Rightarrow> Inr (snd m))
      | _ \<Rightarrow> Inl TypeError)"

text \<open>
  The loop over the preset flags, shared by both sides: every flag that is \<^verbatim>\<open>True\<close>
  replaces \<^verbatim>\<open>ret\<close> by its entry of \<^verbatim>\<open>color_in_hex\<close> (a KeyError when it has none); there
  is no \<^verbatim>\<open>break\<close>.
\<close>

primrec color_loop :: "(string \<rightharpoonup> string) \<Rightarrow> namespace \<Rightarrow> string list \<Rightarrow> pyval \<Rightarrow> error + pyval" where
  "color_loop color_in_hex args [] ret = Inr ret"
| "color_loop color_in_hex args (color # rest) ret =
     and_then (getattr args color) (\<lambda>v.
       if eq_True v then
         (case color_in_hex color of
            None \<Rightarrow> Inl KeyError
          | Some hex \<Rightarrow> color_loop color_in_hex args rest (PyStr hex))
       else color_loop color_in_hex args rest ret)"

definition fg_color_args :: "string list" where
  "fg_color_args = [''f'', ''fR'', ''fG'', ''fB'', ''fW'', ''fK'', ''fC'', ''fM'', ''fY'', ''fg'']"

definition fg_color_in_hex :: "string \<rightharpoonup> string" where
  "fg_color_in_hex = map_of
     [(''fR'', ''FF0000''), (''fG'', ''00FF00''), (''ff'', ''0000FF''), (''fW'', ''FFFFFF''),
      (''fK'', ''000000''), (''fC'', ''00FFFF''), (''fM'', ''FF00ff''), (''fY'', ''FFFF00''),
      (''fg'', ''A9A9A9'')]"

text \<open>\<^verbatim>\<open>check_fg_color\<close>: when \<^verbatim>\<open>args.f\<close> is given, the source validates and takes \<^verbatim>\<open>args.b\<close>.\<close>

definition check_fg_color :: "namespace \<Rightarrow> error + string" where
  "check_fg_color args =
     and_then (getattr args ''f'') (\<lambda>f.
     and_then
       (if f \<noteq> PyNone then
          and_then (getattr args ''b'') (\<lambda>b.
          and_then (validate_html_color b) (\<lambda>ok.
            if ok then Inr b else Inl (Exit EXIT_INVALID_FG)))
        else Inr (PyStr DEFAULT_FGC)) (\<lambda>ret.
     and_then (color_loop fg_color_in_hex args fg_color_args ret) sanitize_html_color))"

definition bg_color_args :: "string list" where
  "bg_color_args = [''bR'', ''bG'', ''bB'', ''bW'', ''bK'', ''bC'', ''bM'', ''bY'', ''bg'']"

definition bg_color_in_hex :: "string \<rightharpoonup> string" where
  "bg_color_in_hex = map_of
     [(''bR'', ''FF0000''), (''bG'', ''00FF00''), (''bB'', ''0000FF''), (''bW'', ''FFFFFF''),
      (''bK'', ''000000''), (''bC'', ''00FFFF''), (''bM'', ''FF00ff''), (''bY'', ''FFFF00''),
      (''bg'', ''A9A9A9'')]"

definition check_bg_color :: "namespace \<Rightarrow> error + string" where
  "check_bg_color args =
     and_then (getattr args ''b'') (\<lambda>b.
     and_then
       (if b \<noteq> PyNone then
          and_then (validate_html_color b) (\<lambda>ok.
            if ok then Inr b else Inl (Exit EXIT_INVALID_BG))
        else Inr (PyStr DEFAULT_BGC)) (\<lambda>ret.
     and_then (color_loop bg_color_in_hex args bg_color_args ret) sanitize_html_color))"

section \<open>Position, size, alpha\<close>

text \<open>\<^verbatim>\<open>check_position\<close>: the first code that is \<^verbatim>\<open>in args\<close> ends the loop.\<close>

primrec position_loop :: "namespace \<Rightarrow> string list \<Rightarrow> string \<Rightarrow> string" where
  "position_loop args [] ret = ret"
| "position_loop args (p # rest) ret =
     (if contains args p then p else position_loop args rest ret)"

definition check_position :: "namespace \<Rightarrow> string" where
  "check_position args = position_loop args POSITION_CODES DEFAULT_POS"

definition check_size :: "namespace \<Rightarrow> error + pyval" where
  "check_size args =
     and_then (getattr args ''s'') (\<lambda>s.
       if truthy s then Inr s else Inr (PyInt DEFAULT_SIZE))"

text \<open>
  \<^verbatim>\<open>check_alpha\<close>: an integer is clamped to 0..255; a boolean compares as 0 or 1 and is
  returned as it is; comparing anything else with an integer raises TypeError.
\<close>

definition check_alpha :: "namespace \<Rightarrow> error + pyval" where
  "check_alpha args =
     and_then (getattr args ''alpha'') (\<lambda>a.
       case a of
         PyInt n \<Rightarrow> Inr (PyInt (if n > 255 then 255 else if n < 0 then 0 else n))
       | PyBool b \<Rightarrow> Inr a
       | _ \<Rightarrow> Inl TypeError)"

section \<open>Layout\<close>

text \<open>
  The bodies of \<^verbatim>\<open>get_text_anchor_pos\<close>, \<^verbatim>\<open>check_margin\<close> and \<^verbatim>\<open>fit_check\<close> are a bare
  \<^verbatim>\<open>return\<close>: each returns \<^verbatim>\<open>None\<close> whatever it is given.
\<close>

definition get_text_anchor_pos :: "string \<Rightarrow> int \<Rightarrow> int \<Rightarrow> int \<Rightarrow> int \<Rightarrow> pyval" where
  "get_text_anchor_pos pos text_w text_h image_w image_h = PyNone"

definition check_margin :: "namespace \<Rightarrow> pyval" where
  "check_margin args = PyNone"

definition fit_check :: "int \<Rightarrow> int \<Rightarrow> pyval \<Rightarrow> int \<Rightarrow> int \<Rightarrow> pyval" where
  "fit_check render_text_width render_text_height margin w h = PyNone"

section \<open>The run\<close>

text \<open>
  The namespace \<^verbatim>\<open>parse_args\<close> returns for a command line with nothing but the text
  words: every destination that \<^verbatim>\<open>config_parser\<close> declares, at its default. A flag or
  option of the command line updates its own entry.
\<close>

definition default_args :: "string list \<Rightarrow> namespace" where
  "default_args ws = map_of
     [(''text'', PyStrs ws), (''s'', PyNone), (''font'', PyNone), (''verbose'', PyInt 0),
      (''out_path'', PyNone), (''alpha'', PyInt 255),
      (''pT'', PyBool False), (''pTL'', PyBool False), (''pTR'', PyBool False),
      (''pB'', PyBool False), (''pBL'', PyBool False), (''pBR'', PyBool False),
      (''pC'', PyBool False), (''pL'', PyBool False), (''pR'', PyBool False),
      (''margin'', PyInt 25),
      (''fR'', PyBool False), (''fG'', PyBool False), (''fB'', PyBool False),
      (''fW'', PyBool False), (''fK'', PyBool False), (''fC'', PyBool False),
      (''fM'', PyBool False), (''fY'', PyBool False), (''fg'', PyBool False), (''f'', PyNone),
      (''bR'', PyBool False), (''bG'', PyBool False), (''bB'', PyBool False),
      (''bW'', PyBool False), (''bK'', PyBool False), (''bC'', PyBool False),
      (''bM'', PyBool False), (''bY'', PyBool False), (''bg'', PyBool False), (''b'', PyNone)]"

text \<open>
  \<^verbatim>\<open>main\<close>, in the order of the source. The terminal's size \<^verbatim>\<open>(c, l)\<close> and the measured
  size of the text are inputs; logging, the choice of the output path and of the font,
  and the calls into the imaging library (\<^verbatim>\<open>create_image\<close>, \<^verbatim>\<open>create_font\<close>) are taken to
  succeed and leave no trace in the result. The run ends by \<^verbatim>\<open>exit(EXIT_DOES_NOT_FIT)\<close>
  when \<^verbatim>\<open>not fit_check(...)\<close> holds and by returning otherwise.
\<close>

definition main :: "namespace \<Rightarrow> int \<Rightarrow> int \<Rightarrow> int \<Rightarrow> int \<Rightarrow> error + unit" where
  "main args c l render_text_width render_text_height =
     (case get_terminal_pixel_size c l RETINA_HCELL_PIXELS RETINA_VCELL_PIXELS
             RETINA_H_OFFSET RETINA_V_OFFSET of
        (w, h) \<Rightarrow>
          (let position = check_position args in
           and_then (check_fg_color args) (\<lambda>fg_color.
           and_then (check_bg_color args) (\<lambda>bg_color.
           and_then (check_size args) (\<lambda>size.
           and_then (check_alpha args) (\<lambda>alpha.
           (let margin = check_margin args in
            and_then (html_to_888 bg_color) (\<lambda>blanking_color.
              if \<not> truthy (fit_check render_text_width render_text_height margin w h)
              then Inl (Exit EXIT_DOES_NOT_FIT)
              else Inr ()))))))))"

section \<open>Results\<close>

lemmas run_defs = default_args_def and_then_def getattr_def eq_True_def
  sanitize_html_color_def validate_html_color_def match_color_def hex_run6_def
  is_hex_def hex_digit_def

lemmas fg_defs = check_fg_color_def DEFAULT_FGC_def fg_color_args_def fg_color_in_hex_def

lemmas bg_defs = check_bg_color_def DEFAULT_BGC_def bg_color_args_def bg_color_in_hex_def

subsection \<open>Layout\<close>

text \<open>
  C1. The claim: \<^verbatim>\<open>fit_check\<close> reports does-not-fit exactly when
  textWidth + 2 * margin > canvasWidth or textHeight + 2 * margin > canvasHeight, and the
  run aborts with the does-not-fit exit code in that case only. What the code does: for
  a text box of 700 by 20, margin 25 and a canvas of 800 by 400, which fits,
  \<^verbatim>\<open>fit_check\<close> returns \<^verbatim>\<open>None\<close>, \<^verbatim>\<open>not fit_check(...)\<close> holds, and a run that gets as far as
  the check (red on white, terminal of 80 by 24, canvas 1140 by 686, the same text box)
  ends with \<^verbatim>\<open>exit(EXIT_DOES_NOT_FIT)\<close>.
\<close>

theorem fit_check_none_run_aborts:
  "fit_check 700 20 (PyInt 25) 800 400 = PyNone
   \<and> \<not> truthy (fit_check 700 20 (PyInt 25) 800 400)
   \<and> main ((default_args [''HELLO''])(''fR'' \<mapsto> PyBool True, ''bW'' \<mapsto> PyBool True))
        80 24 700 20 = Inl (Exit EXIT_DOES_NOT_FIT)"
  by (simp add: fit_check_def truthy_def main_def get_terminal_pixel_size_def check_position_def
      check_size_def check_alpha_def check_margin_def html_to_888_def hex_byte_to_int_def
      run_defs fg_defs bg_defs)

text \<open>
  C2. The claim: the computed top-left coordinate follows the anchor tables, so that on
  a canvas of 800 by 400 with a text box of 100 by 20 and margin 25 top-left gives
  (25, 25), top-right (675, 25), bottom-right (675, 355) and center (350, 190). What the
  code does: \<^verbatim>\<open>get_text_anchor_pos\<close>, which takes no margin, returns \<^verbatim>\<open>None\<close> for each of
  the four anchors.
\<close>

theorem get_text_anchor_pos_none:
  "get_text_anchor_pos ''pTL'' 100 20 800 400 = PyNone
   \<and> get_text_anchor_pos ''pTR'' 100 20 800 400 = PyNone
   \<and> get_text_anchor_pos ''pBR'' 100 20 800 400 = PyNone
   \<and> get_text_anchor_pos ''pC'' 100 20 800 400 = PyNone"
  by (simp add: get_text_anchor_pos_def)

subsection \<open>Colors\<close>

lemma hex_digit_hash: "hex_digit CHR ''#'' = None"
  by (simp add: hex_digit_def)

text \<open>The presets that do resolve: eight of the foreground, all nine of the background.\<close>

lemma fg_presets_resolve:
  "check_fg_color ((default_args ws)(''fR'' \<mapsto> PyBool True)) = Inr ''FF0000''"
  "check_fg_color ((default_args ws)(''fG'' \<mapsto> PyBool True)) = Inr ''00FF00''"
  "check_fg_color ((default_args ws)(''fW'' \<mapsto> PyBool True)) = Inr ''FFFFFF''"
  "check_fg_color ((default_args ws)(''fK'' \<mapsto> PyBool True)) = Inr ''000000''"
  "check_fg_color ((default_args ws)(''fC'' \<mapsto> PyBool True)) = Inr ''00FFFF''"
  "check_fg_color ((default_args ws)(''fM'' \<mapsto> PyBool True)) = Inr ''FF00ff''"
  "check_fg_color ((default_args ws)(''fY'' \<mapsto> PyBool True)) = Inr ''FFFF00''"
  "check_fg_color ((default_args ws)(''fg'' \<mapsto> PyBool True)) = Inr ''A9A9A9''"
  by (simp_all add: run_defs fg_defs)

lemma bg_presets_resolve:
  "check_bg_color ((default_args ws)(''bR'' \<mapsto> PyBool True)) = Inr ''FF0000''"
  "check_bg_color ((default_args ws)(''bG'' \<mapsto> PyBool True)) = Inr ''00FF00''"
  "check_bg_color ((default_args ws)(''bB'' \<mapsto> PyBool True)) = Inr ''0000FF''"
  "check_bg_color ((default_args ws)(''bW'' \<mapsto> PyBool True)) = Inr ''FFFFFF''"
  "check_bg_color ((default_args ws)(''bK'' \<mapsto> PyBool True)) = Inr ''000000''"
  "check_bg_color ((default_args ws)(''bC'' \<mapsto> PyBool True)) = Inr ''00FFFF''"
  "check_bg_color ((default_args ws)(''bM'' \<mapsto> PyBool True)) = Inr ''FF00ff''"
  "check_bg_color ((default_args ws)(''bY'' \<mapsto> PyBool True)) = Inr ''FFFF00''"
  "check_bg_color ((default_args ws)(''bg'' \<mapsto> PyBool True)) = Inr ''A9A9A9''"
  by (simp_all add: run_defs bg_defs)

text \<open>
  C3. The claim: a valid explicit foreground color is the resolved foreground, whatever
  the background selection. What the code does: with \<^verbatim>\<open>--f 112233 --b 445566\<close> the
  foreground resolves to 445566, the background's value; with \<^verbatim>\<open>--f 112233\<close> alone
  \<^verbatim>\<open>args.b\<close> is \<^verbatim>\<open>None\<close> and the validation raises TypeError.
\<close>

theorem check_fg_color_reads_background:
  "check_fg_color ((default_args [''HELLO''])(''f'' \<mapsto> PyStr ''112233'', ''b'' \<mapsto> PyStr ''445566''))
     = Inr ''445566''
   \<and> check_fg_color ((default_args [''HELLO''])(''f'' \<mapsto> PyStr ''112233'')) = Inl TypeError"
  by (simp add: run_defs fg_defs)

text \<open>
  C4. The claim: each of the nine presets, as a foreground or a background flag,
  resolves to its documented constant. What the code does: the foreground table has the
  key \<^verbatim>\<open>ff\<close> where \<^verbatim>\<open>fB\<close> belongs, so \<^verbatim>\<open>--fB\<close> (blue) raises KeyError, while \<^verbatim>\<open>--bB\<close>
  resolves to 0000FF.
\<close>

theorem check_fg_color_blue_key_error:
  "check_fg_color ((default_args [''HELLO''])(''fB'' \<mapsto> PyBool True)) = Inl KeyError
   \<and> check_bg_color ((default_args [''HELLO''])(''bB'' \<mapsto> PyBool True)) = Inr ''0000FF''"
  by (simp add: run_defs fg_defs bg_defs)

text \<open>
  C5. The claim: an invalid explicit color never resolves, and the run ends with the
  exit code of the side concerned and in no other way. What the code does: for
  \<^verbatim>\<open>--b 12345\<close> and \<^verbatim>\<open>--b GGHHII\<close> the pattern occurs nowhere in the string, and
  \<^verbatim>\<open>validate_html_color\<close> raises AttributeError before \<^verbatim>\<open>exit(EXIT_INVALID_BG)\<close> is
  reached; only a string that holds six hexadecimal digits somewhere, such as
  \<^verbatim>\<open>FF0000zz\<close>, ends with that exit code.
\<close>

theorem check_bg_color_no_match_raises:
  "check_bg_color ((default_args [''HELLO''])(''b'' \<mapsto> PyStr ''12345'')) = Inl AttributeError
   \<and> check_bg_color ((default_args [''HELLO''])(''b'' \<mapsto> PyStr ''GGHHII'')) = Inl AttributeError
   \<and> check_bg_color ((default_args [''HELLO''])(''b'' \<mapsto> PyStr ''FF0000zz''))
       = Inl (Exit EXIT_INVALID_BG)"
  by (simp add: run_defs bg_defs)

text \<open>
  C6. The claim: without a foreground selection the foreground resolves to 000000, and
  without a background selection the background resolves to FFFFFF. What the code does:
  the defaults are the flag names \<^verbatim>\<open>fK\<close> and \<^verbatim>\<open>bW\<close>, which are never looked up in the
  tables; \<^verbatim>\<open>sanitize_html_color\<close> finds no match in them and raises AttributeError.
\<close>

theorem default_colors_raise:
  "check_fg_color (default_args [''HELLO'']) = Inl AttributeError
   \<and> check_bg_color (default_args [''HELLO'']) = Inl AttributeError"
  by (simp add: run_defs fg_defs bg_defs)

text \<open>
  C9. For every string of exactly six hexadecimal digits \<open>c1 \<dots> c6\<close>, with digit values
  \<open>d1 \<dots> d6\<close>: sanitizing it with a leading \<^verbatim>\<open>#\<close> and without one both give the bare six
  digits, and converting either sanitized result (as \<^verbatim>\<open>main\<close> does) gives the triple of
  the three two-digit groups read in base 16.
\<close>

theorem sanitize_hash_and_rgb:
  assumes "hex_digit c1 = Some d1" "hex_digit c2 = Some d2" "hex_digit c3 = Some d3"
    "hex_digit c4 = Some d4" "hex_digit c5 = Some d5" "hex_digit c6 = Some d6"
  shows "sanitize_html_color (PyStr (CHR ''#'' # [c1, c2, c3, c4, c5, c6]))
           = Inr [c1, c2, c3, c4, c5, c6]
    \<and> sanitize_html_color (PyStr [c1, c2, c3, c4, c5, c6]) = Inr [c1, c2, c3, c4, c5, c6]
    \<and> and_then (sanitize_html_color (PyStr (CHR ''#'' # [c1, c2, c3, c4, c5, c6]))) html_to_888
        = Inr (16 * d1 + d2, 16 * d3 + d4, 16 * d5 + d6)
    \<and> and_then (sanitize_html_color (PyStr [c1, c2, c3, c4, c5, c6])) html_to_888
        = Inr (16 * d1 + d2, 16 * d3 + d4, 16 * d5 + d6)"
proof -
  let ?h = "[c1, c2, c3, c4, c5, c6]"
  have run: "hex_run6 ?h = Some ?h"
    using assms by (simp add: hex_run6_def is_hex_def)
  have no_hash: "c1 \<noteq> CHR ''#''"
    using assms(1) hex_digit_hash by auto
  have with_hash: "match_color (CHR ''#'' # ?h) = Some (CHR ''#'' # ?h, ?h)"
    using run by (simp add: match_color_def)
  have bare: "match_color ?h = Some (?h, ?h)"
    using run no_hash by (simp add: match_color_def)
  have rgb: "html_to_888 ?h = Inr (16 * d1 + d2, 16 * d3 + d4, 16 * d5 + d6)"
    using run assms by (simp add: html_to_888_def hex_byte_to_int_def and_then_def is_hex_def)
  show ?thesis
    using with_hash bare rgb by (simp add: sanitize_html_color_def and_then_def)
qed

theorem sanitize_hash_and_rgb_witness:
  "sanitize_html_color (PyStr ''#a9A9Ff'') = Inr ''a9A9Ff''
   \<and> sanitize_html_color (PyStr ''a9A9Ff'') = Inr ''a9A9Ff''
   \<and> and_then (sanitize_html_color (PyStr ''#a9A9Ff'')) html_to_888 = Inr (169, 169, 255)
   \<and> and_then (sanitize_html_color (PyStr ''a9A9Ff'')) html_to_888 = Inr (169, 169, 255)"
proof -
  have d: "hex_digit CHR ''a'' = Some 10" "hex_digit CHR ''9'' = Some 9"
    "hex_digit CHR ''A'' = Some 10" "hex_digit CHR ''F'' = Some 15"
    "hex_digit CHR ''f'' = Some 15"
    by (simp_all add: hex_digit_def)
  show ?thesis
    using sanitize_hash_and_rgb [OF d(1) d(2) d(3) d(2) d(4) d(5)] by (elim conjE) simp
qed

subsection \<open>Position and size\<close>

text \<open>
  Every namespace that has the attribute \<^verbatim>\<open>pT\<close>, as every parsed one has, resolves to
  \<^verbatim>\<open>pT\<close>.
\<close>

lemma check_position_top_center: "contains args ''pT'' \<Longrightarrow> check_position args = ''pT''"
  by (simp add: check_position_def POSITION_CODES_def)

text \<open>
  C7. The claim: without a position flag the position is top-right, and with one flag
  it is the position the flag names. What the code does: \<^verbatim>\<open>p in args\<close> holds for the
  first code, \<^verbatim>\<open>pT\<close>, since the parser sets every flag's attribute; without a flag and
  with \<^verbatim>\<open>--pBR\<close> the position is \<^verbatim>\<open>pT\<close>, top-center.
\<close>

theorem check_position_ignores_flags:
  "check_position (default_args [''HELLO'']) = ''pT''
   \<and> check_position ((default_args [''HELLO''])(''pBR'' \<mapsto> PyBool True)) = ''pT''"
  by (simp add: check_position_def POSITION_CODES_def contains_def default_args_def)

text \<open>
  C8. For all columns, rows and cell profile the canvas is
  width = columns * horizontalPixelsPerCell + horizontalOffset and
  height = rows * verticalPixelsPerCell + verticalOffset, in exact integer arithmetic;
  80 columns and 24 rows with the profile (14, 28, 20, 14), which is the module's Retina
  profile, give 1140 by 686.
\<close>

theorem get_terminal_pixel_size_linear:
  "get_terminal_pixel_size columns lines h_pix v_pix h_offset v_offset
     = (columns * h_pix + h_offset, lines * v_pix + v_offset)
   \<and> get_terminal_pixel_size 80 24 14 28 20 14 = (1140, 686)
   \<and> get_terminal_pixel_size 80 24 RETINA_HCELL_PIXELS RETINA_VCELL_PIXELS
        RETINA_H_OFFSET RETINA_V_OFFSET = (1140, 686)"
  by (simp add: get_terminal_pixel_size_def RETINA_HCELL_PIXELS_def RETINA_VCELL_PIXELS_def
      RETINA_H_OFFSET_def RETINA_V_OFFSET_def)

text \<open>
  C10. When \<^verbatim>\<open>-s\<close> is absent (\<^verbatim>\<open>args.s\<close> is \<^verbatim>\<open>None\<close>) or 0, \<^verbatim>\<open>check_size\<close> returns the
  default 45; for every other supplied size it returns that size unchanged.
\<close>

theorem check_size_default_or_given:
  "(args ''s'' = Some PyNone \<or> args ''s'' = Some (PyInt 0)
      \<longrightarrow> check_size args = Inr (PyInt 45))
   \<and> (\<forall>n. n \<noteq> 0 \<and> args ''s'' = Some (PyInt n) \<longrightarrow> check_size args = Inr (PyInt n))"
  by (auto simp add: check_size_def getattr_def and_then_def truthy_def DEFAULT_SIZE_def)

theorem check_size_default_or_given_witness:
  "check_size (default_args [''HELLO'']) = Inr (PyInt 45)
   \<and> check_size ((default_args [''HELLO''])(''s'' \<mapsto> PyInt 0)) = Inr (PyInt 45)
   \<and> check_size ((default_args [''HELLO''])(''s'' \<mapsto> PyInt 12)) = Inr (PyInt 12)"
  using check_size_default_or_given [of "default_args [''HELLO'']"]
    check_size_default_or_given [of "(default_args [''HELLO''])(''s'' \<mapsto> PyInt 0)"]
    check_size_default_or_given [of "(default_args [''HELLO''])(''s'' \<mapsto> PyInt 12)"]
  by (simp add: default_args_def)

end
